theory Spec2Isabelle
  imports Main "HOL-Library.Word"
begin

section \<open>Data model\<close>

text \<open>
  \<^verbatim>\<open>size_t\<close> is the unsigned 64-bit integer of an LP64 host: \<open>+\<close> and \<open>*\<close> wrap around
  modulo \<open>2 ^ 64\<close>, \<open>div\<close> and \<open>mod\<close> are the unsigned division of C++.
\<close>

type_synonym size_t = "64 word"

text \<open>
  Modelled from the spec: class \<^verbatim>\<open>Var\<close> (\<^verbatim>\<open>dai/var.h\<close>) is not among the sources. The spec
  describes a variable as identified by a unique integer label, with a number of states;
  variables are ordered and compared by label. \<^verbatim>\<open>n->states()\<close> is a \<^verbatim>\<open>size_t\<close> in
  \<^verbatim>\<open>varset.h\<close>.
\<close>

record Var =
  label :: int
  states :: size_t

text \<open>
  A \<^verbatim>\<open>VarSet\<close> is a \<^verbatim>\<open>SmallSet<Var>\<close>: a vector of variables, iterated from \<^verbatim>\<open>begin()\<close> to
  \<^verbatim>\<open>end()\<close>. The class comment of \<^verbatim>\<open>varset.h\<close> states its invariant: the labels are
  strictly ascending.
\<close>

type_synonym VarSet = "Var list"

definition sorted_labels :: "VarSet \<Rightarrow> bool" where
  "sorted_labels vs \<longleftrightarrow> sorted_wrt (\<lambda>x y. label x < label y) vs"

text \<open>
  The spec's data model gives every variable at least one state.
\<close>

definition states_positive :: "VarSet \<Rightarrow> bool" where
  "states_positive vs \<longleftrightarrow> list_all (\<lambda>n. states n \<noteq> 0) vs"

text \<open>
  \<^verbatim>\<open>std::map<Var, size_t>\<close>: a finite map whose keys are compared by label only.
\<close>

type_synonym StateMap = "int \<rightharpoonup> size_t"

text \<open>
  The conditions an operation can signal. \<^verbatim>\<open>NOT_IMPLEMENTED\<close> is thrown by
  \<^verbatim>\<open>DAI_THROW(NOT_IMPLEMENTED)\<close>.
  Modelled from the spec: the macro \<^verbatim>\<open>DAI_ASSERT\<close> is not among the sources; the spec
  names the condition that the failed assertion of \<^verbatim>\<open>calcStates\<close> signals
  \<open>IndexOutOfRange\<close>.
  \<open>UNDEFINED_BEHAVIOUR\<close> stands for what C++ leaves undefined: a division by zero and an
  unchecked \<^verbatim>\<open>std::vector\<close> subscript beyond the size.
\<close>

datatype error = NOT_IMPLEMENTED | IndexOutOfRange | UNDEFINED_BEHAVIOUR

section \<open>VarSet: joint states and linear indices\<close>

text \<open>
  \<^verbatim>\<open>VarSet::nrStates\<close>: the loop \<^verbatim>\<open>states *= n->states()\<close> starting from 1.
\<close>

fun nrStates_loop :: "VarSet \<Rightarrow> size_t \<Rightarrow> size_t" where
  "nrStates_loop [] st = st"
| "nrStates_loop (n # ns) st = nrStates_loop ns (st * states n)"

definition nrStates :: "VarSet \<Rightarrow> size_t" where
  "nrStates vs = nrStates_loop vs 1"

text \<open>
  \<^verbatim>\<open>VarSet::calcState\<close>: the loop over the variables with the accumulators \<^verbatim>\<open>prod\<close> and
  \<^verbatim>\<open>state\<close>; a variable that \<^verbatim>\<open>states.find\<close> does not find adds nothing. The function has no
  \<^verbatim>\<open>throw\<close> and no assertion, so its result is a plain \<^verbatim>\<open>size_t\<close>.
\<close>

fun calcState_loop :: "VarSet \<Rightarrow> StateMap \<Rightarrow> size_t \<Rightarrow> size_t \<Rightarrow> size_t" where
  "calcState_loop [] sts prod_acc state = state"
| "calcState_loop (n # ns) sts prod_acc state =
     (case sts (label n) of
        Some m \<Rightarrow> calcState_loop ns sts (prod_acc * states n) (state + prod_acc * m)
      | None \<Rightarrow> calcState_loop ns sts (prod_acc * states n) state)"

definition calcState :: "VarSet \<Rightarrow> StateMap \<Rightarrow> size_t" where
  "calcState vs sts = calcState_loop vs sts 1 0"

text \<open>
  \<^verbatim>\<open>VarSet::calcStates\<close>: the loop stores \<^verbatim>\<open>linearState % n->states()\<close> under the variable
  and divides \<^verbatim>\<open>linearState\<close> by \<^verbatim>\<open>n->states()\<close>; it returns the remaining quotient with
  the map. \<^verbatim>\<open>DAI_ASSERT( linearState == 0 )\<close> follows the loop.
\<close>

fun calcStates_loop :: "VarSet \<Rightarrow> size_t \<Rightarrow> StateMap \<Rightarrow> error + (size_t \<times> StateMap)" where
  "calcStates_loop [] linearState sts = Inr (linearState, sts)"
| "calcStates_loop (n # ns) linearState sts =
     (if states n = 0 then Inl UNDEFINED_BEHAVIOUR
      else calcStates_loop ns (linearState div states n)
             (sts(label n \<mapsto> linearState mod states n)))"

definition calcStates :: "VarSet \<Rightarrow> size_t \<Rightarrow> error + StateMap" where
  "calcStates vs linearState =
     (case calcStates_loop vs linearState Map.empty of
        Inl e \<Rightarrow> Inl e
      | Inr (rest, sts) \<Rightarrow> if rest = 0 then Inr sts else Inl IndexOutOfRange)"

text \<open>
  The encoding as the spec words it: for each variable in order, \<open>index += stride * state\<close>
  with state 0 for a variable absent from the assignment, then the stride is multiplied by
  the cardinality.
\<close>

definition state_or_zero :: "StateMap \<Rightarrow> Var \<Rightarrow> size_t" where
  "state_or_zero sts n = (case sts (label n) of Some m \<Rightarrow> m | None \<Rightarrow> 0)"

fun encode_spec_loop :: "VarSet \<Rightarrow> StateMap \<Rightarrow> size_t \<Rightarrow> size_t \<Rightarrow> size_t" where
  "encode_spec_loop [] a stride index = index"
| "encode_spec_loop (n # ns) a stride index =
     encode_spec_loop ns a (stride * states n) (index + stride * state_or_zero a n)"

definition encode_spec :: "VarSet \<Rightarrow> StateMap \<Rightarrow> size_t" where
  "encode_spec vs a = encode_spec_loop vs a 1 0"

text \<open>
  The mixed-radix value, lowest digit first, in \<^verbatim>\<open>size_t\<close> arithmetic and over the natural
  numbers; and the product of the cardinalities over the natural numbers.
\<close>

fun mixed_radix :: "VarSet \<Rightarrow> StateMap \<Rightarrow> size_t" where
  "mixed_radix [] a = 0"
| "mixed_radix (n # ns) a = state_or_zero a n + states n * mixed_radix ns a"

fun mixed_radix_nat :: "VarSet \<Rightarrow> StateMap \<Rightarrow> nat" where
  "mixed_radix_nat [] a = 0"
| "mixed_radix_nat (n # ns) a = unat (state_or_zero a n) + unat (states n) * mixed_radix_nat ns a"

definition card_product :: "VarSet \<Rightarrow> nat" where
  "card_product vs = prod_list (map (\<lambda>n. unat (states n)) vs)"

definition representable :: "VarSet \<Rightarrow> bool" where
  "representable vs \<longleftrightarrow> card_product vs < 2 ^ 64"

text \<open>
  Two conditions on an assignment: it is full over a set when its keys are exactly the
  labels of the set; its states are in range when every state it gives to a variable of
  the set is below the cardinality of that variable.
\<close>

definition full_assignment :: "VarSet \<Rightarrow> StateMap \<Rightarrow> bool" where
  "full_assignment vs a \<longleftrightarrow> dom a = label ` set vs"

definition states_in_range :: "VarSet \<Rightarrow> StateMap \<Rightarrow> bool" where
  "states_in_range vs a \<longleftrightarrow>
     list_all (\<lambda>n. case a (label n) of Some s \<Rightarrow> s < states n | None \<Rightarrow> True) vs"

section \<open>ExactInf: the exact inference engine\<close>

text \<open>
  The classes \<^verbatim>\<open>Factor\<close>, \<^verbatim>\<open>FactorGraph\<close> and the type \<^verbatim>\<open>Real\<close> are declared in headers that
  are not among the sources. A factor is a value of the type parameter \<open>'f\<close>, a real of
  \<open>'r\<close>; nothing is assumed about either. The bound factor graph (the base class
  \<^verbatim>\<open>DAIAlgFG\<close>) holds the variables and the factors in order.
\<close>

record 'f FactorGraph =
  vars :: "Var list"
  factors :: "'f list"

text \<open>
  The fields of \<^verbatim>\<open>ExactInf\<close>: \<^verbatim>\<open>props.verbose\<close>, \<^verbatim>\<open>_beliefsV\<close>, \<^verbatim>\<open>_beliefsF\<close> and \<^verbatim>\<open>_logZ\<close>, with
  the graph of the base class.
\<close>

record ('f, 'r) ExactInf =
  fg :: "'f FactorGraph"
  props_verbose :: size_t
  m_beliefsV :: "'f list"
  m_beliefsF :: "'f list"
  m_logZ :: 'r

text \<open>
  A member function is a function from the engine to its result and the engine after the
  call. \<^verbatim>\<open>beliefV(i)\<close> and \<^verbatim>\<open>beliefF(I)\<close> return \<^verbatim>\<open>_beliefsV[i]\<close> and \<^verbatim>\<open>_beliefsF[I]\<close>; the
  subscript of a \<^verbatim>\<open>std::vector\<close> is unchecked.
\<close>

definition beliefV :: "('f, 'r) ExactInf \<Rightarrow> size_t \<Rightarrow> (error + 'f) \<times> ('f, 'r) ExactInf" where
  "beliefV e i =
     (if unat i < length (m_beliefsV e) then Inr (m_beliefsV e ! unat i)
      else Inl UNDEFINED_BEHAVIOUR, e)"

definition beliefF :: "('f, 'r) ExactInf \<Rightarrow> size_t \<Rightarrow> (error + 'f) \<times> ('f, 'r) ExactInf" where
  "beliefF e I =
     (if unat I < length (m_beliefsF e) then Inr (m_beliefsF e ! unat I)
      else Inl UNDEFINED_BEHAVIOUR, e)"

text \<open>
  \<^verbatim>\<open>belief(const Var &n)\<close> returns \<^verbatim>\<open>beliefV( findVar( n ) )\<close>. \<^verbatim>\<open>findVar\<close> belongs to
  \<^verbatim>\<open>FactorGraph\<close>, which is not among the sources: it is the parameter \<open>findVar\<close>, a lookup
  in the bound graph that gives a position or signals a condition.
\<close>

definition belief ::
  "('f FactorGraph \<Rightarrow> Var \<Rightarrow> error + size_t) \<Rightarrow> ('f, 'r) ExactInf \<Rightarrow> Var
     \<Rightarrow> (error + 'f) \<times> ('f, 'r) ExactInf" where
  "belief findVar e n =
     (case findVar (fg e) n of
        Inl err \<Rightarrow> (Inl err, e)
      | Inr i \<Rightarrow> beliefV e i)"

definition logZ :: "('f, 'r) ExactInf \<Rightarrow> 'r \<times> ('f, 'r) ExactInf" where
  "logZ e = (m_logZ e, e)"

text \<open>
  \<^verbatim>\<open>init(const VarSet&)\<close>, \<^verbatim>\<open>maxDiff()\<close> and \<^verbatim>\<open>Iterations()\<close>: the body is
  \<^verbatim>\<open>DAI_THROW(NOT_IMPLEMENTED)\<close>; the \<^verbatim>\<open>return\<close> after it is never reached.
\<close>

definition init_VarSet :: "('f, 'r) ExactInf \<Rightarrow> VarSet \<Rightarrow> (error + unit) \<times> ('f, 'r) ExactInf" where
  "init_VarSet e ns = (Inl NOT_IMPLEMENTED, e)"

definition maxDiff :: "('f, 'r) ExactInf \<Rightarrow> (error + 'r) \<times> ('f, 'r) ExactInf" where
  "maxDiff e = (Inl NOT_IMPLEMENTED, e)"

definition Iterations :: "('f, 'r) ExactInf \<Rightarrow> (error + size_t) \<times> ('f, 'r) ExactInf" where
  "Iterations e = (Inl NOT_IMPLEMENTED, e)"

text \<open>
  Modelled from the spec: the factor algebra (\<^verbatim>\<open>dai/factor.h\<close>) is not among the sources.
  The spec lists the operations the engine relies on: the pointwise product of two
  factors, the summation of a factor down to a scope, the normalisation, the sum of all
  entries and the scope of a factor; \<open>unit_factor\<close> is the factor the product starts
  from and \<open>logarithm\<close> the natural logarithm.
\<close>

record ('f, 'r) FactorOps =
  unit_factor :: 'f
  multiply :: "'f \<Rightarrow> 'f \<Rightarrow> 'f"
  marginal :: "'f \<Rightarrow> VarSet \<Rightarrow> 'f"
  normalized :: "'f \<Rightarrow> 'f"
  totalSum :: "'f \<Rightarrow> 'r"
  scope :: "'f \<Rightarrow> VarSet"
  logarithm :: "'r \<Rightarrow> 'r"

text \<open>
  Modelled from the spec: \<^verbatim>\<open>ExactInf::run\<close> is declared in \<^verbatim>\<open>exactinf.h\<close> and defined in a
  file that is not among the sources. The spec gives its steps: (1) the joint factor is
  the product of every factor of the graph; (2) \<open>logZ\<close> is the logarithm of its total
  mass; (3) the belief of each variable is the joint factor summed down to that variable
  and normalised; (4) the belief of each factor is the joint factor summed down to the
  scope of that factor and normalised. The scalar that \<^verbatim>\<open>run\<close> returns is left open by the
  spec and is not modelled.
\<close>

definition joint_factor :: "('f, 'r) FactorOps \<Rightarrow> 'f FactorGraph \<Rightarrow> 'f" where
  "joint_factor ops g = foldl (multiply ops) (unit_factor ops) (factors g)"

definition run :: "('f, 'r) FactorOps \<Rightarrow> ('f, 'r) ExactInf \<Rightarrow> ('f, 'r) ExactInf" where
  "run ops e =
     (let P = joint_factor ops (fg e) in
      e\<lparr> m_logZ := logarithm ops (totalSum ops P),
         m_beliefsV := map (\<lambda>v. normalized ops (marginal ops P [v])) (vars (fg e)),
         m_beliefsF := map (\<lambda>F. normalized ops (marginal ops P (scope ops F))) (factors (fg e)) \<rparr>)"

section \<open>Properties of the index computations\<close>

lemma nrStates_loop_prod: "nrStates_loop vs st = st * prod_list (map states vs)"
  by (induction vs arbitrary: st) (simp_all add: mult.assoc)

lemma unat_prod_list: "unat (prod_list (map states vs) :: size_t) = card_product vs mod 2 ^ 64"
proof (induction vs)
  case Nil
  show ?case by (simp add: card_product_def)
next
  case (Cons n ns)
  have "unat (states n * prod_list (map states ns)) =
        (unat (states n) * unat (prod_list (map states ns))) mod 2 ^ 64"
    by (simp add: unat_word_ariths)
  also have "\<dots> = (unat (states n) * (card_product ns mod 2 ^ 64)) mod 2 ^ 64"
    by (simp only: Cons.IH)
  also have "\<dots> = (unat (states n) * card_product ns) mod 2 ^ 64"
    by (simp add: mod_mult_right_eq)
  finally show ?case by (simp add: card_product_def)
qed

text \<open>
  C5. \<^verbatim>\<open>nrStates\<close> returns the product of the cardinalities of the variables of the set,
  taken in the order of the set, computed in \<^verbatim>\<open>size_t\<close> (so it is the product of the
  natural numbers modulo \<open>2 ^ 64\<close>); for the empty set it returns 1.
\<close>

theorem nrStates_product:
  "nrStates vs = prod_list (map states vs)
   \<and> unat (nrStates vs) = card_product vs mod 2 ^ 64
   \<and> nrStates [] = 1"
  by (simp add: nrStates_def nrStates_loop_prod unat_prod_list)

subsection \<open>The encoding\<close>

lemma calcState_loop_spec:
  "calcState_loop vs a p s = encode_spec_loop vs a p s"
  by (induction vs arbitrary: p s) (simp_all add: state_or_zero_def split: option.splits)

lemma encode_spec_loop_radix:
  "encode_spec_loop vs a p s = s + p * mixed_radix vs a"
  by (induction vs arbitrary: p s) (simp_all add: algebra_simps)

lemma calcState_radix: "calcState vs a = mixed_radix vs a"
  by (simp add: calcState_def calcState_loop_spec encode_spec_loop_radix)

lemma mixed_radix_sum:
  "mixed_radix vs a =
     (\<Sum>i<length vs. state_or_zero a (vs ! i) * prod_list (map states (take i vs)))"
proof (induction vs)
  case Nil
  show ?case by simp
next
  case (Cons n ns)
  show ?case
    by (simp add: Cons.IH sum.lessThan_Suc_shift sum_distrib_left mult.assoc mult.left_commute
        del: sum.lessThan_Suc)
qed

text \<open>
  C4. For every set of variables and every assignment, partial or not, \<^verbatim>\<open>calcState\<close>
  returns what the loop of the spec returns (\<open>index += stride * state\<close> with state 0 for an
  absent variable, then \<open>stride *= cardinality\<close>, over the variables in the order of the
  set, which is the ascending order of the labels). That value is the mixed-radix number
  whose digit for the \<open>i\<close>-th variable is weighted by the product of the cardinalities
  of the variables before it.
\<close>

theorem calcState_is_mixed_radix:
  "calcState vs a = encode_spec vs a
   \<and> calcState vs a =
       (\<Sum>i<length vs. state_or_zero a (vs ! i) * prod_list (map states (take i vs)))"
  by (simp add: calcState_def calcState_loop_spec encode_spec_def
      encode_spec_loop_radix mixed_radix_sum)

subsection \<open>The decoding\<close>

lemma calcStates_loop_frame:
  "calcStates_loop vs ls m = Inr (q, m') \<Longrightarrow> k \<notin> label ` set vs \<Longrightarrow> m' k = m k"
  by (induction vs arbitrary: ls m) (auto split: if_splits)

lemma sorted_labels_Cons:
  "sorted_labels (n # ns) \<Longrightarrow> sorted_labels ns \<and> label n \<notin> label ` set ns"
  by (auto simp: sorted_labels_def)

lemma calcStates_loop_radix:
  "sorted_labels vs \<Longrightarrow> calcStates_loop vs ls m = Inr (0, m') \<Longrightarrow> mixed_radix vs m' = ls"
proof (induction vs arbitrary: ls m)
  case Nil
  then show ?case by simp
next
  case (Cons n ns)
  from Cons.prems(1) have srt: "sorted_labels ns" and fresh: "label n \<notin> label ` set ns"
    using sorted_labels_Cons by blast+
  from Cons.prems(2) have nz: "states n \<noteq> 0"
    and rest: "calcStates_loop ns (ls div states n) (m(label n \<mapsto> ls mod states n)) = Inr (0, m')"
    by (auto split: if_splits)
  have "m' (label n) = Some (ls mod states n)"
    using calcStates_loop_frame [OF rest fresh] by simp
  then have digit: "state_or_zero m' n = ls mod states n"
    by (simp add: state_or_zero_def)
  have "mixed_radix ns m' = ls div states n"
    using Cons.IH [OF srt rest] .
  with digit show ?case
    by (simp add: mod_mult_div_eq)
qed

lemma card_product_Cons: "card_product (n # ns) = unat (states n) * card_product ns"
  by (simp add: card_product_def)

lemma card_product_pos: "0 < card_product vs \<longleftrightarrow> states_positive vs"
  by (induction vs) (simp_all add: card_product_def states_positive_def unat_gt_0)

lemma calcStates_loop_quotient:
  "states_positive vs \<Longrightarrow>
   \<exists>q m'. calcStates_loop vs ls m = Inr (q, m') \<and> unat q = unat ls div card_product vs"
proof (induction vs arbitrary: ls m)
  case Nil
  show ?case by (simp add: card_product_def)
next
  case (Cons n ns)
  from Cons.prems have nz: "states n \<noteq> 0" and pos: "states_positive ns"
    by (simp_all add: states_positive_def)
  from Cons.IH [OF pos] obtain q m' where
    r: "calcStates_loop ns (ls div states n) (m(label n \<mapsto> ls mod states n)) = Inr (q, m')"
    and q: "unat q = unat (ls div states n) div card_product ns"
    by blast
  have "unat q = unat ls div card_product (n # ns)"
    by (simp add: q unat_div card_product_Cons div_mult2_eq)
  with r nz show ?case by simp
qed

lemma unat_nrStates: "unat (nrStates vs) = card_product vs mod 2 ^ 64"
  by (simp add: nrStates_def nrStates_loop_prod unat_prod_list)

lemma unat_nrStates_le: "unat (nrStates vs) \<le> card_product vs"
  by (simp add: unat_nrStates)

text \<open>
  C1. For every set of variables with strictly ascending labels and every index \<open>i\<close>
  below \<^verbatim>\<open>nrStates()\<close>, \<^verbatim>\<open>calcStates(i)\<close> returns an assignment and \<^verbatim>\<open>calcState\<close> of that
  assignment is \<open>i\<close>. This holds with the wrap-around of \<^verbatim>\<open>size_t\<close> as well.
\<close>

theorem calcState_calcStates:
  assumes "sorted_labels vs" and "i < nrStates vs"
  shows "\<exists>a. calcStates vs i = Inr a \<and> calcState vs a = i"
proof -
  have lt: "unat i < card_product vs"
    using assms(2) unat_nrStates_le [of vs] by (simp add: word_less_nat_alt)
  then have "states_positive vs"
    using card_product_pos [of vs] by simp
  from calcStates_loop_quotient [OF this, of i Map.empty] obtain q m' where
    r: "calcStates_loop vs i Map.empty = Inr (q, m')" and "unat q = unat i div card_product vs"
    by blast
  with lt have "q = 0" by (simp add: unat_eq_0 [symmetric])
  with r have "calcStates vs i = Inr m'" and "mixed_radix vs m' = i"
    using calcStates_loop_radix [OF assms(1), of i Map.empty m']
    by (simp_all add: calcStates_def)
  then show ?thesis by (simp add: calcState_radix)
qed

theorem calcState_calcStates_witness:
  "sorted_labels [\<lparr>label = 0, states = 2\<rparr>, \<lparr>label = 1, states = 3\<rparr>]
   \<and> (5 :: size_t) < nrStates [\<lparr>label = 0, states = 2\<rparr>, \<lparr>label = 1, states = 3\<rparr>]
   \<and> (\<exists>a. calcStates [\<lparr>label = 0, states = 2\<rparr>, \<lparr>label = 1, states = 3\<rparr>] 5 = Inr a
          \<and> calcState [\<lparr>label = 0, states = 2\<rparr>, \<lparr>label = 1, states = 3\<rparr>] a = 5)"
proof -
  have h1: "sorted_labels [\<lparr>label = 0, states = 2\<rparr>, \<lparr>label = 1, states = 3\<rparr>]"
    by (simp add: sorted_labels_def)
  have h2: "(5 :: size_t) < nrStates [\<lparr>label = 0, states = 2\<rparr>, \<lparr>label = 1, states = 3\<rparr>]"
    by (simp add: nrStates_def)
  from calcState_calcStates [OF h1 h2] h1 h2 show ?thesis by blast
qed

subsection \<open>Decoding an encoded assignment\<close>

lemma digit_bound:
  fixes d c e P :: nat
  assumes "d < c" and "e < P"
  shows "d + c * e < c * P"
proof -
  have "d + c * e < c + c * e" using assms(1) by simp
  also have "\<dots> = c * Suc e" by simp
  also have "\<dots> \<le> c * P" using assms(2) by (intro mult_le_mono2) simp
  finally show ?thesis .
qed

lemma mixed_radix_nat_less:
  "list_all (\<lambda>n. state_or_zero a n < states n) vs \<Longrightarrow> mixed_radix_nat vs a < card_product vs"
proof (induction vs)
  case Nil
  show ?case by (simp add: card_product_def)
next
  case (Cons n ns)
  then have "unat (state_or_zero a n) < unat (states n)" and "mixed_radix_nat ns a < card_product ns"
    by (simp_all add: word_less_nat_alt)
  then show ?case
    by (simp add: card_product_Cons digit_bound)
qed

lemma card_product_tail_le:
  assumes "states n \<noteq> 0" and "card_product (n # ns) \<le> B"
  shows "card_product ns \<le> B"
proof -
  have "1 \<le> unat (states n)" using assms(1) by (simp add: unat_gt_0 Suc_le_eq)
  then have "1 * card_product ns \<le> unat (states n) * card_product ns" by (rule mult_le_mono1)
  also have "\<dots> \<le> B" using assms(2) by (simp only: card_product_Cons)
  finally show ?thesis by simp
qed

lemma word_digit_split:
  fixes d c e :: size_t
  assumes "d < c" and "unat d + unat c * unat e < 2 ^ 64"
  shows "(d + c * e) mod c = d" and "(d + c * e) div c = e"
proof -
  have m: "unat (c * e) = unat c * unat e"
    using assms(2) by (simp add: unat_mult_lem [symmetric])
  have "unat d + unat (c * e) < 2 ^ LENGTH(64)"
    using assms(2) by (simp add: m)
  then have "unat (d + c * e) = unat d + unat (c * e)"
    by (rule unat_add_lem [THEN iffD1])
  then have s: "unat (d + c * e) = unat d + unat c * unat e"
    by (simp add: m)
  have lt: "unat d < unat c" using assms(1) by (simp add: word_less_nat_alt)
  show "(d + c * e) mod c = d"
    by (simp add: word_unat_eq_iff unat_mod s lt)
  show "(d + c * e) div c = e"
    using lt by (simp add: word_unat_eq_iff unat_div s)
qed

lemma unat_mixed_radix:
  "list_all (\<lambda>n. state_or_zero a n < states n) vs \<Longrightarrow> card_product vs \<le> 2 ^ 64 \<Longrightarrow>
   unat (mixed_radix vs a) = mixed_radix_nat vs a"
proof (induction vs)
  case Nil
  show ?case by simp
next
  case (Cons n ns)
  from Cons.prems(1) have d: "state_or_zero a n < states n"
    and ds: "list_all (\<lambda>n. state_or_zero a n < states n) ns"
    by simp_all
  from d have nz: "states n \<noteq> 0" by auto
  have tl: "card_product ns \<le> 2 ^ 64"
    using card_product_tail_le [OF nz Cons.prems(2)] .
  have e: "unat (mixed_radix ns a) = mixed_radix_nat ns a"
    using Cons.IH [OF ds tl] .
  have "unat (state_or_zero a n) + unat (states n) * mixed_radix_nat ns a < card_product (n # ns)"
    using mixed_radix_nat_less [OF Cons.prems(1)] by simp
  with Cons.prems(2) have b: "unat (state_or_zero a n) + unat (states n) * unat (mixed_radix ns a) < 2 ^ 64"
    by (simp add: e)
  then have m: "unat (states n * mixed_radix ns a) = unat (states n) * unat (mixed_radix ns a)"
    by (simp add: unat_mult_lem [symmetric])
  have "unat (state_or_zero a n) + unat (states n * mixed_radix ns a) < 2 ^ LENGTH(64)"
    using b by (simp add: m)
  then have "unat (state_or_zero a n + states n * mixed_radix ns a) =
      unat (state_or_zero a n) + unat (states n * mixed_radix ns a)"
    by (rule unat_add_lem [THEN iffD1])
  then show ?case by (simp add: m e)
qed

lemma calcStates_loop_mixed_radix:
  "list_all (\<lambda>n. state_or_zero a n < states n) vs \<Longrightarrow> card_product vs \<le> 2 ^ 64 \<Longrightarrow>
   calcStates_loop vs (mixed_radix vs a) m =
     Inr (0, \<lambda>k. if k \<in> label ` set vs then Some (case a k of Some s \<Rightarrow> s | None \<Rightarrow> 0) else m k)"
proof (induction vs arbitrary: m)
  case Nil
  show ?case by simp
next
  case (Cons n ns)
  from Cons.prems(1) have d: "state_or_zero a n < states n"
    and ds: "list_all (\<lambda>n. state_or_zero a n < states n) ns"
    by simp_all
  from d have nz: "states n \<noteq> 0" by auto
  have tl: "card_product ns \<le> 2 ^ 64"
    using card_product_tail_le [OF nz Cons.prems(2)] .
  have "unat (state_or_zero a n) + unat (states n) * mixed_radix_nat ns a < card_product (n # ns)"
    using mixed_radix_nat_less [OF Cons.prems(1)] by simp
  with Cons.prems(2) have b: "unat (state_or_zero a n) + unat (states n) * unat (mixed_radix ns a) < 2 ^ 64"
    by (simp add: unat_mixed_radix [OF ds tl])
  note sp = word_digit_split [OF d b]
  have "calcStates_loop (n # ns) (mixed_radix (n # ns) a) m =
        calcStates_loop ns (mixed_radix ns a) (m(label n \<mapsto> state_or_zero a n))"
    using nz by (simp add: sp)
  also have "\<dots> = Inr (0, \<lambda>k. if k \<in> label ` set ns
                  then Some (case a k of Some s \<Rightarrow> s | None \<Rightarrow> 0)
                  else (m(label n \<mapsto> state_or_zero a n)) k)"
    using Cons.IH [OF ds tl] .
  also have "(\<lambda>k. if k \<in> label ` set ns
                  then Some (case a k of Some s \<Rightarrow> s | None \<Rightarrow> 0)
                  else (m(label n \<mapsto> state_or_zero a n)) k) =
             (\<lambda>k. if k \<in> label ` set (n # ns)
                  then Some (case a k of Some s \<Rightarrow> s | None \<Rightarrow> 0) else m k)"
    by (rule ext) (simp add: state_or_zero_def)
  finally show ?case .
qed

lemma digits_of_full:
  assumes "full_assignment vs a" and "states_in_range vs a"
  shows "list_all (\<lambda>n. state_or_zero a n < states n) vs"
proof -
  have "state_or_zero a n < states n" if "n \<in> set vs" for n
  proof -
    from that assms(1) have "label n \<in> dom a" by (auto simp: full_assignment_def)
    then obtain s where s: "a (label n) = Some s" by blast
    with that assms(2) have "s < states n"
      by (auto simp: states_in_range_def list_all_iff)
    with s show ?thesis by (simp add: state_or_zero_def)
  qed
  then show ?thesis by (simp add: list_all_iff)
qed

lemma digits_of_partial:
  assumes "states_positive vs" and "states_in_range vs a"
  shows "list_all (\<lambda>n. state_or_zero a n < states n) vs"
proof -
  have "state_or_zero a n < states n" if "n \<in> set vs" for n
  proof (cases "a (label n)")
    case None
    from that assms(1) have "states n \<noteq> 0" by (simp add: states_positive_def list_all_iff)
    with None show ?thesis by (simp add: state_or_zero_def word_greater_zero_iff)
  next
    case (Some s)
    with that assms(2) have "s < states n"
      by (auto simp: states_in_range_def list_all_iff)
    with Some show ?thesis by (simp add: state_or_zero_def)
  qed
  then show ?thesis by (simp add: list_all_iff)
qed

text \<open>
  C2, as amended. For every set of variables whose product of cardinalities is
  representable in \<^verbatim>\<open>size_t\<close> and every full assignment over the set with every state in
  range, \<^verbatim>\<open>calcStates\<close> of the encoded index returns the assignment.
\<close>

theorem calcStates_calcState:
  assumes "representable vs" and "full_assignment vs a" and "states_in_range vs a"
  shows "calcStates vs (calcState vs a) = Inr a"
proof -
  have le: "card_product vs \<le> 2 ^ 64"
    using assms(1) by (simp add: representable_def)
  have "(\<lambda>k. if k \<in> label ` set vs then Some (case a k of Some s \<Rightarrow> s | None \<Rightarrow> 0) else None) = a"
  proof (rule ext)
    fix k
    show "(if k \<in> label ` set vs then Some (case a k of Some s \<Rightarrow> s | None \<Rightarrow> 0) else None) = a k"
      using assms(2) by (cases "a k") (auto simp: full_assignment_def)
  qed
  with calcStates_loop_mixed_radix [OF digits_of_full [OF assms(2,3)] le, of Map.empty]
  show ?thesis
    by (simp add: calcStates_def calcState_radix)
qed

theorem calcStates_calcState_witness:
  "representable [\<lparr>label = 0, states = 2\<rparr>, \<lparr>label = 1, states = 3\<rparr>]
   \<and> full_assignment [\<lparr>label = 0, states = 2\<rparr>, \<lparr>label = 1, states = 3\<rparr>] [0 \<mapsto> 1, 1 \<mapsto> 2]
   \<and> states_in_range [\<lparr>label = 0, states = 2\<rparr>, \<lparr>label = 1, states = 3\<rparr>] [0 \<mapsto> 1, 1 \<mapsto> 2]
   \<and> calcStates [\<lparr>label = 0, states = 2\<rparr>, \<lparr>label = 1, states = 3\<rparr>]
        (calcState [\<lparr>label = 0, states = 2\<rparr>, \<lparr>label = 1, states = 3\<rparr>] [0 \<mapsto> 1, 1 \<mapsto> 2])
       = Inr [0 \<mapsto> 1, 1 \<mapsto> 2]"
proof -
  have h1: "representable [\<lparr>label = 0, states = 2\<rparr>, \<lparr>label = 1, states = 3\<rparr>]"
    by (simp add: representable_def card_product_def)
  have h2: "full_assignment [\<lparr>label = 0, states = 2\<rparr>, \<lparr>label = 1, states = 3\<rparr>] [0 \<mapsto> 1, 1 \<mapsto> 2]"
    by (auto simp: full_assignment_def)
  have h3: "states_in_range [\<lparr>label = 0, states = 2\<rparr>, \<lparr>label = 1, states = 3\<rparr>] [0 \<mapsto> 1, 1 \<mapsto> 2]"
    by (simp add: states_in_range_def)
  from calcStates_calcState [OF h1 h2 h3] h1 h2 h3 show ?thesis by blast
qed

text \<open>
  C2 as stated fails where the product of the cardinalities overflows: with \<open>2 ^ 33\<close> and
  \<open>2 ^ 32\<close> states, the assignment \<open>(0, 2 ^ 31)\<close> has the index \<open>2 ^ 64\<close>, which wraps to 0,
  and 0 decodes to \<open>(0, 0)\<close>.
\<close>

theorem calcStates_calcState_overflow:
  "sorted_labels [\<lparr>label = 0, states = 8589934592\<rparr>, \<lparr>label = 1, states = 4294967296\<rparr>]
   \<and> full_assignment [\<lparr>label = 0, states = 8589934592\<rparr>, \<lparr>label = 1, states = 4294967296\<rparr>]
        [0 \<mapsto> 0, 1 \<mapsto> 2147483648]
   \<and> states_in_range [\<lparr>label = 0, states = 8589934592\<rparr>, \<lparr>label = 1, states = 4294967296\<rparr>]
        [0 \<mapsto> 0, 1 \<mapsto> 2147483648]
   \<and> calcStates [\<lparr>label = 0, states = 8589934592\<rparr>, \<lparr>label = 1, states = 4294967296\<rparr>]
        (calcState [\<lparr>label = 0, states = 8589934592\<rparr>, \<lparr>label = 1, states = 4294967296\<rparr>]
           [0 \<mapsto> 0, 1 \<mapsto> 2147483648])
       \<noteq> Inr [0 \<mapsto> 0, 1 \<mapsto> 2147483648]"
proof -
  have enc: "calcState [\<lparr>label = 0, states = 8589934592\<rparr>, \<lparr>label = 1, states = 4294967296\<rparr>]
           [0 \<mapsto> 0, 1 \<mapsto> 2147483648] = 0"
    by (simp add: calcState_def)
  have dec: "calcStates [\<lparr>label = 0, states = 8589934592\<rparr>, \<lparr>label = 1, states = 4294967296\<rparr>] 0
       = Inr [0 \<mapsto> 0, 1 \<mapsto> 0]"
    by (simp add: calcStates_def)
  have "[0 \<mapsto> 0, 1 \<mapsto> 0] \<noteq> [0 :: int \<mapsto> 0, 1 \<mapsto> (2147483648 :: size_t)]" (is "?l \<noteq> ?r")
  proof
    assume "?l = ?r"
    then have "?l 1 = ?r 1" by (rule fun_cong)
    then show False by simp
  qed
  then show ?thesis
    by (simp add: enc dec sorted_labels_def full_assignment_def states_in_range_def insert_commute)
qed

subsection \<open>Indices out of range\<close>

text \<open>
  C3, as amended. For every set of variables with at least one state each whose product
  of cardinalities is representable in \<^verbatim>\<open>size_t\<close>, and every index \<open>i\<close> not below
  \<^verbatim>\<open>nrStates()\<close>, the loop of \<^verbatim>\<open>calcStates\<close> ends with a quotient other than 0 and
  \<^verbatim>\<open>calcStates(i)\<close> signals \<open>IndexOutOfRange\<close>.
\<close>

theorem calcStates_out_of_range:
  assumes "states_positive vs" and "representable vs" and "nrStates vs \<le> i"
  shows "calcStates vs i = Inl IndexOutOfRange
         \<and> (\<exists>rest sts. calcStates_loop vs i Map.empty = Inr (rest, sts) \<and> rest \<noteq> 0)"
proof -
  from calcStates_loop_quotient [OF assms(1), of i Map.empty] obtain q m' where
    r: "calcStates_loop vs i Map.empty = Inr (q, m')" and q: "unat q = unat i div card_product vs"
    by blast
  have "unat (nrStates vs) = card_product vs"
    using assms(2) by (simp add: unat_nrStates representable_def)
  with assms(3) have "card_product vs \<le> unat i"
    by (simp add: word_le_nat_alt)
  moreover have "0 < card_product vs"
    using assms(1) by (simp add: card_product_pos)
  ultimately have "0 < unat i div card_product vs"
    by (simp add: div_greater_zero_iff)
  with q have "q \<noteq> 0" by (auto simp: unat_gt_0 [symmetric])
  with r show ?thesis by (simp add: calcStates_def)
qed

theorem calcStates_out_of_range_witness:
  "states_positive [\<lparr>label = 0, states = 2\<rparr>, \<lparr>label = 1, states = 3\<rparr>]
   \<and> representable [\<lparr>label = 0, states = 2\<rparr>, \<lparr>label = 1, states = 3\<rparr>]
   \<and> nrStates [\<lparr>label = 0, states = 2\<rparr>, \<lparr>label = 1, states = 3\<rparr>] \<le> 6
   \<and> calcStates [\<lparr>label = 0, states = 2\<rparr>, \<lparr>label = 1, states = 3\<rparr>] 6 = Inl IndexOutOfRange
   \<and> (\<exists>rest sts. calcStates_loop [\<lparr>label = 0, states = 2\<rparr>, \<lparr>label = 1, states = 3\<rparr>] 6 Map.empty
          = Inr (rest, sts) \<and> rest \<noteq> 0)"
proof -
  have h1: "states_positive [\<lparr>label = 0, states = 2\<rparr>, \<lparr>label = 1, states = 3\<rparr>]"
    by (simp add: states_positive_def)
  have h2: "representable [\<lparr>label = 0, states = 2\<rparr>, \<lparr>label = 1, states = 3\<rparr>]"
    by (simp add: representable_def card_product_def)
  have h3: "nrStates [\<lparr>label = 0, states = 2\<rparr>, \<lparr>label = 1, states = 3\<rparr>] \<le> 6"
    by (simp add: nrStates_def)
  from calcStates_out_of_range [OF h1 h2 h3] h1 h2 h3 show ?thesis by blast
qed

text \<open>
  C3 as stated fails where the product of the cardinalities overflows: with \<open>2 ^ 32\<close>
  states twice, \<^verbatim>\<open>nrStates()\<close> is 0, the index 5 is not below it, and \<^verbatim>\<open>calcStates(5)\<close>
  returns the assignment \<open>(5, 0)\<close>.
\<close>

theorem calcStates_overflow_accepts:
  "sorted_labels [\<lparr>label = 0, states = 4294967296\<rparr>, \<lparr>label = 1, states = 4294967296\<rparr>]
   \<and> states_positive [\<lparr>label = 0, states = 4294967296\<rparr>, \<lparr>label = 1, states = 4294967296\<rparr>]
   \<and> nrStates [\<lparr>label = 0, states = 4294967296\<rparr>, \<lparr>label = 1, states = 4294967296\<rparr>] \<le> 5
   \<and> calcStates [\<lparr>label = 0, states = 4294967296\<rparr>, \<lparr>label = 1, states = 4294967296\<rparr>] 5
       = Inr [0 \<mapsto> 5, 1 \<mapsto> 0]"
  by (simp add: sorted_labels_def states_positive_def nrStates_def calcStates_def)

subsection \<open>The range of the encoding\<close>

text \<open>
  C10, as amended. For every set of variables with at least one state each whose product
  of cardinalities is representable in \<^verbatim>\<open>size_t\<close>, and every assignment, partial or not,
  whose states for the variables of the set are in range, \<^verbatim>\<open>calcState\<close> returns an index
  below \<^verbatim>\<open>nrStates()\<close>. \<^verbatim>\<open>calcState\<close> has no failing branch: it returns an index for
  every input.
\<close>

theorem calcState_less_nrStates:
  assumes "states_positive vs" and "representable vs" and "states_in_range vs a"
  shows "calcState vs a < nrStates vs"
proof -
  note ds = digits_of_partial [OF assms(1,3)]
  have le: "card_product vs \<le> 2 ^ 64"
    using assms(2) by (simp add: representable_def)
  have "unat (calcState vs a) = mixed_radix_nat vs a"
    by (simp add: calcState_radix unat_mixed_radix [OF ds le])
  moreover have "unat (nrStates vs) = card_product vs"
    using assms(2) by (simp add: unat_nrStates representable_def)
  ultimately show ?thesis
    using mixed_radix_nat_less [OF ds] by (simp add: word_less_nat_alt)
qed

theorem calcState_less_nrStates_witness:
  "states_positive [\<lparr>label = 0, states = 2\<rparr>, \<lparr>label = 1, states = 3\<rparr>]
   \<and> representable [\<lparr>label = 0, states = 2\<rparr>, \<lparr>label = 1, states = 3\<rparr>]
   \<and> states_in_range [\<lparr>label = 0, states = 2\<rparr>, \<lparr>label = 1, states = 3\<rparr>] [1 \<mapsto> 2]
   \<and> calcState [\<lparr>label = 0, states = 2\<rparr>, \<lparr>label = 1, states = 3\<rparr>] [1 \<mapsto> 2]
       < nrStates [\<lparr>label = 0, states = 2\<rparr>, \<lparr>label = 1, states = 3\<rparr>]"
proof -
  have h1: "states_positive [\<lparr>label = 0, states = 2\<rparr>, \<lparr>label = 1, states = 3\<rparr>]"
    by (simp add: states_positive_def)
  have h2: "representable [\<lparr>label = 0, states = 2\<rparr>, \<lparr>label = 1, states = 3\<rparr>]"
    by (simp add: representable_def card_product_def)
  have h3: "states_in_range [\<lparr>label = 0, states = 2\<rparr>, \<lparr>label = 1, states = 3\<rparr>] [1 \<mapsto> 2]"
    by (simp add: states_in_range_def)
  from calcState_less_nrStates [OF h1 h2 h3] h1 h2 h3 show ?thesis by blast
qed

text \<open>
  C10 as stated fails where the product of the cardinalities overflows: with \<open>2 ^ 32\<close>
  states twice, \<^verbatim>\<open>nrStates()\<close> is 0 and the index 1 of the assignment that puts the first
  variable in state 1 is not below it.
\<close>

theorem calcState_overflow_not_less:
  "sorted_labels [\<lparr>label = 0, states = 4294967296\<rparr>, \<lparr>label = 1, states = 4294967296\<rparr>]
   \<and> states_positive [\<lparr>label = 0, states = 4294967296\<rparr>, \<lparr>label = 1, states = 4294967296\<rparr>]
   \<and> states_in_range [\<lparr>label = 0, states = 4294967296\<rparr>, \<lparr>label = 1, states = 4294967296\<rparr>] [0 \<mapsto> 1]
   \<and> \<not> calcState [\<lparr>label = 0, states = 4294967296\<rparr>, \<lparr>label = 1, states = 4294967296\<rparr>] [0 \<mapsto> 1]
         < nrStates [\<lparr>label = 0, states = 4294967296\<rparr>, \<lparr>label = 1, states = 4294967296\<rparr>]"
  by (simp add: sorted_labels_def states_positive_def states_in_range_def calcState_def nrStates_def
      word_less_nat_alt)

subsection \<open>Assignments that mention other variables\<close>

lemma calcState_loop_cong:
  "\<forall>n\<in>set vs. a (label n) = b (label n) \<Longrightarrow> calcState_loop vs a p s = calcState_loop vs b p s"
  by (induction vs arbitrary: p s) (simp_all split: option.splits)

text \<open>
  C7, as amended. \<^verbatim>\<open>calcState\<close> never fails: the entries of the assignment for variables
  that are not members of the set are ignored, so the index is that of the assignment
  restricted to the members.
\<close>

theorem calcState_ignores_unknown:
  "calcState vs a = calcState vs (a |` (label ` set vs))"
  unfolding calcState_def by (rule calcState_loop_cong) simp

text \<open>
  C7 as stated fails: an assignment that gives a state to the variable 7, which is not in
  the set, is encoded without any failure; the index is 1.
\<close>

theorem calcState_unknown_variable_returns:
  "(7 :: int) \<in> dom [0 \<mapsto> 1 :: size_t, 7 \<mapsto> 1]
   \<and> 7 \<notin> label ` set [\<lparr>label = 0, states = 2\<rparr>]
   \<and> calcState [\<lparr>label = 0, states = 2\<rparr>] [0 \<mapsto> 1, 7 \<mapsto> 1] = 1"
  by (simp add: calcState_def)

section \<open>Properties of the engine\<close>

text \<open>
  C6. In every state of the engine, \<^verbatim>\<open>init(const VarSet&)\<close>, \<^verbatim>\<open>maxDiff()\<close> and
  \<^verbatim>\<open>Iterations()\<close> signal \<open>NOT_IMPLEMENTED\<close>, and the engine is as it was.
\<close>

theorem iterative_operations_not_implemented:
  "init_VarSet e ns = (Inl NOT_IMPLEMENTED, e)
   \<and> maxDiff e = (Inl NOT_IMPLEMENTED, e)
   \<and> Iterations e = (Inl NOT_IMPLEMENTED, e)"
  by (simp add: init_VarSet_def maxDiff_def Iterations_def)

text \<open>
  C8. Whatever the factor operations are, a second \<^verbatim>\<open>run\<close> on the same engine gives the
  same beliefs of the variables, beliefs of the factors and \<open>logZ\<close> as the first; \<^verbatim>\<open>run\<close>
  leaves the bound graph as it is, and its result does not depend on the beliefs and
  \<open>logZ\<close> stored before: they are computed anew and overwritten.
\<close>

theorem run_idempotent:
  "m_beliefsV (run ops (run ops e)) = m_beliefsV (run ops e)
   \<and> m_beliefsF (run ops (run ops e)) = m_beliefsF (run ops e)
   \<and> m_logZ (run ops (run ops e)) = m_logZ (run ops e)
   \<and> fg (run ops e) = fg e
   \<and> run ops (e\<lparr>m_beliefsV := bV, m_beliefsF := bF, m_logZ := z\<rparr>) = run ops e"
  by (simp add: run_def Let_def)

text \<open>
  C9. In every state of the engine, \<^verbatim>\<open>belief(n)\<close>, \<^verbatim>\<open>beliefV(i)\<close>, \<^verbatim>\<open>beliefF(I)\<close> and
  \<^verbatim>\<open>logZ()\<close> leave the engine as it is; \<^verbatim>\<open>logZ()\<close> returns the stored value, \<^verbatim>\<open>beliefV(i)\<close>
  and \<^verbatim>\<open>beliefF(I)\<close> return the stored table at a position within the vector, and
  \<^verbatim>\<open>belief(n)\<close> returns the stored table of the variables at the position that \<^verbatim>\<open>findVar\<close>
  gives for \<open>n\<close>.
\<close>

theorem belief_queries_read_only:
  "snd (belief findVar e n) = e \<and> snd (beliefV e i) = e \<and> snd (beliefF e I) = e
   \<and> logZ e = (m_logZ e, e)
   \<and> (unat i < length (m_beliefsV e) \<longrightarrow> fst (beliefV e i) = Inr (m_beliefsV e ! unat i))
   \<and> (unat I < length (m_beliefsF e) \<longrightarrow> fst (beliefF e I) = Inr (m_beliefsF e ! unat I))
   \<and> (findVar (fg e) n = Inr k \<and> unat k < length (m_beliefsV e) \<longrightarrow>
        fst (belief findVar e n) = Inr (m_beliefsV e ! unat k))"
  by (simp add: belief_def beliefV_def beliefF_def logZ_def split: sum.splits)

theorem belief_queries_read_only_witness:
  "unat (1 :: size_t) < length (m_beliefsV
      \<lparr>fg = \<lparr>vars = [\<lparr>label = 0, states = 2\<rparr>, \<lparr>label = 1, states = 2\<rparr>], factors = [[1, 1, 1, 1 :: int]]\<rparr>,
       props_verbose = 0, m_beliefsV = [[1, 1], [2, 2]], m_beliefsF = [[1, 1, 1, 1]], m_logZ = (0 :: int)\<rparr>)
   \<and> unat (0 :: size_t) < length (m_beliefsF
      \<lparr>fg = \<lparr>vars = [\<lparr>label = 0, states = 2\<rparr>, \<lparr>label = 1, states = 2\<rparr>], factors = [[1, 1, 1, 1 :: int]]\<rparr>,
       props_verbose = 0, m_beliefsV = [[1, 1], [2, 2]], m_beliefsF = [[1, 1, 1, 1]], m_logZ = (0 :: int)\<rparr>)
   \<and> fst (beliefV
      \<lparr>fg = \<lparr>vars = [\<lparr>label = 0, states = 2\<rparr>, \<lparr>label = 1, states = 2\<rparr>], factors = [[1, 1, 1, 1 :: int]]\<rparr>,
       props_verbose = 0, m_beliefsV = [[1, 1], [2, 2]], m_beliefsF = [[1, 1, 1, 1]], m_logZ = (0 :: int)\<rparr> 1)
       = Inr [2, 2]
   \<and> fst (beliefF
      \<lparr>fg = \<lparr>vars = [\<lparr>label = 0, states = 2\<rparr>, \<lparr>label = 1, states = 2\<rparr>], factors = [[1, 1, 1, 1 :: int]]\<rparr>,
       props_verbose = 0, m_beliefsV = [[1, 1], [2, 2]], m_beliefsF = [[1, 1, 1, 1]], m_logZ = (0 :: int)\<rparr> 0)
       = Inr [1, 1, 1, 1]
   \<and> fst (belief (\<lambda>g n. if label n = 1 then Inr 1 else Inl IndexOutOfRange)
      \<lparr>fg = \<lparr>vars = [\<lparr>label = 0, states = 2\<rparr>, \<lparr>label = 1, states = 2\<rparr>], factors = [[1, 1, 1, 1 :: int]]\<rparr>,
       props_verbose = 0, m_beliefsV = [[1, 1], [2, 2]], m_beliefsF = [[1, 1, 1, 1]], m_logZ = (0 :: int)\<rparr>
      \<lparr>label = 1, states = 2\<rparr>)
       = Inr [2, 2]"
  using belief_queries_read_only
    [of "\<lambda>g n. if label n = 1 then Inr 1 else Inl IndexOutOfRange"
        "\<lparr>fg = \<lparr>vars = [\<lparr>label = 0, states = 2\<rparr>, \<lparr>label = 1, states = 2\<rparr>], factors = [[1, 1, 1, 1 :: int]]\<rparr>,
          props_verbose = 0, m_beliefsV = [[1, 1], [2, 2]], m_beliefsF = [[1, 1, 1, 1]], m_logZ = (0 :: int)\<rparr>"
        "\<lparr>label = 1, states = 2\<rparr>" 1 0 1]
  by simp

end
